theory Spec2Isabelle
  imports Main "HOL-Library.AList"
begin

section \<open>Data model\<close>

text \<open>
  The repository is a small Python wrapper around three external facilities: a spawned
  Tor process (\<^verbatim>\<open>stem.process.launch_tor_with_config\<close>), an HTTP client
  (\<^verbatim>\<open>requests.Session\<close>) and the process list (\<^verbatim>\<open>psutil\<close>).
  The external facilities are parameters of the model (the record \<open>env\<close>); everything
  the code does to them is written into an explicit \<open>world\<close>, whose \<open>history\<close> lists
  the effects of a run, most recent first.
\<close>

subsection \<open>Python values\<close>

text \<open>
  \<^verbatim>\<open>stem_config\<close> is a free-form dict. The model has the values the constructor looks
  at: \<^verbatim>\<open>None\<close>, \<^verbatim>\<open>int\<close>, \<^verbatim>\<open>str\<close>, and one level of nested dict
  (\<^verbatim>\<open>stem_config["config"]\<close>). A dict is an association list read with \<open>map_of\<close> and
  written with \<open>AList.update\<close>, which replaces the value of an existing key in place and
  appends a new key, as Python's insertion-ordered dicts do.
\<close>

datatype scalar = SNone | SInt int | SStr string

datatype pyval = Scalar scalar | Dict "(string \<times> scalar) list"

type_synonym config = "(string \<times> pyval) list"

text \<open>\<^verbatim>\<open>d.get(k)\<close>: the value, or \<^verbatim>\<open>None\<close> when the key is missing.\<close>

definition py_get :: "config \<Rightarrow> string \<Rightarrow> pyval" where
  "py_get d k = (case map_of d k of None \<Rightarrow> Scalar SNone | Some v \<Rightarrow> v)"

definition dict_get :: "(string \<times> scalar) list \<Rightarrow> string \<Rightarrow> scalar" where
  "dict_get d k = (case map_of d k of None \<Rightarrow> SNone | Some v \<Rightarrow> v)"

text \<open>\<^verbatim>\<open>str(n)\<close> of an integer: its decimal digits, with a minus sign when negative.\<close>

definition digit_char :: "nat \<Rightarrow> char" where
  "digit_char d = ''0123456789'' ! (d mod 10)"

function str_nat :: "nat \<Rightarrow> string" where
  "str_nat n = (if n < 10 then [digit_char n] else str_nat (n div 10) @ [digit_char (n mod 10)])"
  by pat_completeness auto
termination
  by (relation "measure (\<lambda>n. n)") auto

declare str_nat.simps [simp del]

definition str_int :: "int \<Rightarrow> string" where
  "str_int i = (if i < 0 then CHR ''-'' # str_nat (nat (- i)) else str_nat (nat i))"

text \<open>\<^verbatim>\<open>str(v)\<close> of a scalar value.\<close>

fun py_str :: "scalar \<Rightarrow> string" where
  "py_str SNone = ''None''"
| "py_str (SInt i) = str_int i"
| "py_str (SStr s) = s"

text \<open>The optional \<^verbatim>\<open>tor_path: str = None\<close> argument as a Python value, and its truth value
  (\<^verbatim>\<open>if tor_path:\<close> is false for \<^verbatim>\<open>None\<close> and for the empty string).\<close>

fun opt_str :: "string option \<Rightarrow> pyval" where
  "opt_str None = Scalar SNone"
| "opt_str (Some s) = Scalar (SStr s)"

fun truthy :: "string option \<Rightarrow> bool" where
  "truthy None = False"
| "truthy (Some s) = (s \<noteq> [])"

subsection \<open>Errors, effects, the world\<close>

datatype error =
    TorConnectionError string
  | OSError string
  | TransportError
  | AttributeError
  | ValueError

type_synonym addr = nat

text \<open>A \<^verbatim>\<open>requests.Session\<close> object; the code touches only its \<^verbatim>\<open>proxies\<close> dict.\<close>

record session =
  proxies :: "(string \<times> string) list"

text \<open>What \<^verbatim>\<open>session.get(url)\<close> gives: a response with a body, or an exception of the
  HTTP layer.\<close>

datatype response = Body string | TransportFailure

datatype launch_result = Launched nat | LaunchOSError string

datatype level = LDebug | LInfo | LError

datatype log_msg =
    LaunchingWithConfig int config
  | Launching int
  | LaunchedOn int
  | LaunchFailed string
  | KilledOldTor
  | BaseNotWorking string
  | BaseRetrying
  | BaseStarted
  | SessionFailed string
  | SessionRetrying int
  | SessionWorks int

datatype event =
    EvLog level log_msg
  | EvLaunch config
  | EvAtexit nat
  | EvProcessIter
  | EvKill nat
  | EvGet addr "(string \<times> string) list" response
  | EvSleep nat
  | EvInsert int addr

text \<open>
  The environment: the \<open>k\<close>-th HTTP GET of a run (through the given proxies), the \<open>k\<close>-th
  launch attempt, the \<open>k\<close>-th listing of the process table (pid and name of each
  process), Python's \<^verbatim>\<open>int()\<close> on a string (\<open>None\<close> for \<^verbatim>\<open>ValueError\<close>), and whether the
  logger's effective level is \<^verbatim>\<open>DEBUG\<close>.
\<close>

record env =
  http_get :: "nat \<Rightarrow> (string \<times> string) list \<Rightarrow> response"
  launch_tor_with_config :: "nat \<Rightarrow> config \<Rightarrow> launch_result"
  process_iter :: "nat \<Rightarrow> (nat \<times> string) list"
  int_of_str :: "string \<Rightarrow> int option"
  debug_logging :: bool

text \<open>
  The store of session objects (every address denotes an object; \<open>next_addr\<close> is the next
  one \<^verbatim>\<open>requests.Session()\<close> returns), the number of GETs, launches and scans made so
  far, and the history of effects, most recent first.
\<close>

record world =
  heap :: "addr \<Rightarrow> session"
  next_addr :: addr
  gets_made :: nat
  launches_made :: nat
  scans_made :: nat
  history :: "event list"

text \<open>The attributes of a \<^verbatim>\<open>TorInstance\<close>. \<open>base_session\<close> is \<open>None\<close> while the
  constructor has not assigned it yet.\<close>

record tor_instance =
  tor_path :: pyval
  port :: int
  current_session_number :: int
  current_sessions :: "(int \<times> addr) list"
  tor_process :: "nat option"
  base_session :: "addr option"

definition emit :: "event \<Rightarrow> world \<Rightarrow> world" where
  "emit e w = w\<lparr>history := e # history w\<rparr>"

text \<open>\<^verbatim>\<open>requests.Session()\<close>: a new object with empty \<^verbatim>\<open>proxies\<close>.\<close>

definition new_session :: "world \<Rightarrow> addr \<times> world" where
  "new_session w =
     (next_addr w,
      w\<lparr>heap := (heap w)(next_addr w := \<lparr>proxies = []\<rparr>), next_addr := Suc (next_addr w)\<rparr>)"

text \<open>\<^verbatim>\<open>session.proxies = {...}\<close>: the object at the address is updated in place.\<close>

definition set_proxies :: "addr \<Rightarrow> (string \<times> string) list \<Rightarrow> world \<Rightarrow> world" where
  "set_proxies a px w = w\<lparr>heap := (heap w)(a := (heap w a)\<lparr>proxies := px\<rparr>)\<rparr>"

text \<open>The credential \<^verbatim>\<open>f'tor{n}'\<close> of session number \<open>n\<close>, and the proxies dict both
  session constructors build from it and the port.\<close>

definition credentials_of :: "int \<Rightarrow> string" where
  "credentials_of n = ''tor'' @ str_int n"

definition socks_url :: "string \<Rightarrow> int \<Rightarrow> string" where
  "socks_url credentials p =
     ''socks5h://'' @ credentials @ '':'' @ credentials @ ''@localhost:'' @ str_int p"

definition socks_proxies :: "string \<Rightarrow> int \<Rightarrow> (string \<times> string) list" where
  "socks_proxies credentials p =
     [(''http'', socks_url credentials p), (''https'', socks_url credentials p)]"

section \<open>check\_tor\<close>

text \<open>Python's \<^verbatim>\<open>m in s\<close> on strings: \<open>m\<close> starts at some position of \<open>s\<close>.\<close>

fun str_in :: "string \<Rightarrow> string \<Rightarrow> bool" where
  "str_in m [] = (m = [])"
| "str_in m (c # cs) = (take (length m) (c # cs) = m \<or> str_in m cs)"

definition marker :: string where
  "marker = ''Congratulations. This browser is configured to use Tor.''"

text \<open>
  \<^verbatim>\<open>check_tor(session)\<close>: one GET through the session; an exception of the HTTP layer is
  not caught.
\<close>

definition check_tor :: "env \<Rightarrow> addr \<Rightarrow> world \<Rightarrow> (error + bool) \<times> world" where
  "check_tor E s w =
     (let px = proxies (heap w s);
          r = http_get E (gets_made w) px;
          w' = emit (EvGet s px r) (w\<lparr>gets_made := Suc (gets_made w)\<rparr>)
      in case r of
           TransportFailure \<Rightarrow> (Inl TransportError, w')
         | Body text \<Rightarrow> (Inr (str_in marker text), w'))"

section \<open>The session manager\<close>

text \<open>\<^verbatim>\<open>parent_session or self.base_session\<close>: a session object is always true.\<close>

fun parent_or_base :: "addr option \<Rightarrow> tor_instance \<Rightarrow> addr option" where
  "parent_or_base (Some p) self = Some p"
| "parent_or_base None self = base_session self"

definition too_many_retrys :: "int \<Rightarrow> string" where
  "too_many_retrys n =
     ''Failed to connect to Tor on session #'' @ str_int n @ '', too many retrys.''"

text \<open>
  \<^verbatim>\<open>TorInstance.get_session_with_number(parent_session, max_tries)\<close>. The result is the
  returned pair or the exception raised, with the manager and the world after the call.
\<close>

function get_session_with_number ::
  "env \<Rightarrow> addr option \<Rightarrow> int \<Rightarrow> tor_instance \<times> world
     \<Rightarrow> (error + addr \<times> int) \<times> tor_instance \<times> world" where
  "get_session_with_number E parent_session max_tries (self, w) =
     (case parent_or_base parent_session self of
        None \<Rightarrow> (Inl AttributeError, self, w)
      | Some session \<Rightarrow>
          (let n = current_session_number self;
               credentials = credentials_of n;
               w1 = set_proxies session (socks_proxies credentials (port self)) w;
               self1 = self\<lparr>current_sessions := AList.update n session (current_sessions self)\<rparr>;
               w2 = emit (EvInsert n session) w1
           in case check_tor E session w2 of
                (Inl e, w3) \<Rightarrow> (Inl e, self1, w3)
              | (Inr False, w3) \<Rightarrow>
                  if max_tries \<le> 0 then
                    (let err_msg = too_many_retrys n;
                         w4 = emit (EvLog LError (SessionFailed err_msg)) w3
                     in (Inl (TorConnectionError err_msg),
                         self1\<lparr>current_session_number := n + 1\<rparr>, w4))
                  else
                    get_session_with_number E (Some session) (max_tries - 1)
                      (self1, emit (EvSleep 5) (emit (EvLog LError (SessionRetrying n)) w3))
              | (Inr True, w3) \<Rightarrow>
                  (let w4 = emit (EvLog LInfo (SessionWorks n)) w3;
                       self2 = self1\<lparr>current_session_number := n + 1\<rparr>
                   in (Inr (session, current_session_number self2), self2, w4))))"
  by pat_completeness auto
termination
  by (relation "measure (\<lambda>(E, p, m, s). nat m)") auto

declare get_session_with_number.simps [simp del]

text \<open>\<^verbatim>\<open>TorInstance.get_session\<close>: the first component of the pair.\<close>

definition get_session ::
  "env \<Rightarrow> addr option \<Rightarrow> int \<Rightarrow> tor_instance \<times> world \<Rightarrow> (error + addr) \<times> tor_instance \<times> world" where
  "get_session E parent_session max_tries sw =
     (case get_session_with_number E parent_session max_tries sw of
        (Inl e, sw') \<Rightarrow> (Inl e, sw')
      | (Inr (s, n), sw') \<Rightarrow> (Inr s, sw'))"

definition base_not_working :: string where
  "base_not_working =
     ''Tor is not working for base session. Please check your Tor configuration and/or internet connection.''"

text \<open>Lines 156 to 161 of \<^verbatim>\<open>_get_base_session\<close>: log, record the client under the current
  counter value, increment the counter, return the client.\<close>

definition base_insert :: "addr \<Rightarrow> tor_instance \<Rightarrow> tor_instance" where
  "base_insert base self =
     self\<lparr>current_sessions :=
            AList.update (current_session_number self) base (current_sessions self),
          current_session_number := current_session_number self + 1\<rparr>"

definition base_started ::
  "addr \<Rightarrow> tor_instance \<times> world \<Rightarrow> (error + addr) \<times> tor_instance \<times> world" where
  "base_started base sw =
     (case sw of (self, w) \<Rightarrow>
        (Inr base, base_insert base self,
         emit (EvInsert (current_session_number self) base) (emit (EvLog LInfo BaseStarted) w)))"

text \<open>
  \<^verbatim>\<open>TorInstance._get_base_session(parent_session, max_tries)\<close>. The value of the recursive
  call is dropped; when it returns, the frame goes on to the lines after the \<^verbatim>\<open>if\<close>.
\<close>

function get_base_session ::
  "env \<Rightarrow> addr option \<Rightarrow> int \<Rightarrow> tor_instance \<times> world
     \<Rightarrow> (error + addr) \<times> tor_instance \<times> world" where
  "get_base_session E parent_session max_tries (self, w) =
     (let (base, w0) = (case parent_session of Some p \<Rightarrow> (p, w) | None \<Rightarrow> new_session w);
          credentials = credentials_of (current_session_number self);
          w1 = set_proxies base (socks_proxies credentials (port self)) w0
      in case check_tor E base w1 of
           (Inl e, w2) \<Rightarrow> (Inl e, self, w2)
         | (Inr False, w2) \<Rightarrow>
             if max_tries \<le> 0 then
               (Inl (TorConnectionError base_not_working), self,
                emit (EvLog LError (BaseNotWorking base_not_working)) w2)
             else
               (case get_base_session E (Some base) (max_tries - 1)
                       (self, emit (EvSleep 5) (emit (EvLog LError BaseRetrying) w2)) of
                  (Inl e, sw) \<Rightarrow> (Inl e, sw)
                | (Inr dropped, sw) \<Rightarrow> base_started base sw)
         | (Inr True, w2) \<Rightarrow> base_started base (self, w2))"
  by pat_completeness auto
termination
  by (relation "measure (\<lambda>(E, p, m, s). nat m)") auto

declare get_base_session.simps [simp del]

section \<open>The process launcher\<close>

text \<open>The scan of the process list: every process named \<^verbatim>\<open>tor.exe\<close> or \<^verbatim>\<open>tor\<close> is killed.\<close>

fun kill_tor_processes :: "(nat \<times> string) list \<Rightarrow> world \<Rightarrow> world" where
  "kill_tor_processes [] w = w"
| "kill_tor_processes ((pid, name) # ps) w =
     kill_tor_processes ps (if name \<in> set [''tor.exe'', ''tor''] then emit (EvKill pid) w else w)"

text \<open>
  \<^verbatim>\<open>TorInstance._start_tor(stem_config, kill_old_tor)\<close>. The \<^verbatim>\<open>while\<close> loop has no bound,
  so the function is partial: \<open>None\<close> is a run that never returns. \<open>times_tried\<close> is
  the loop's local counter.
\<close>

partial_function (option) start_tor ::
  "env \<Rightarrow> tor_instance \<Rightarrow> config \<Rightarrow> bool \<Rightarrow> nat \<Rightarrow> world \<Rightarrow> ((error + nat) \<times> world) option" where
  "start_tor E self stem_config kill_old_tor times_tried w =
     (let w1 = (if debug_logging E
                then emit (EvLog LDebug (LaunchingWithConfig (port self) stem_config)) w
                else emit (EvLog LInfo (Launching (port self))) w);
          r = launch_tor_with_config E (launches_made w1) stem_config;
          w2 = emit (EvLaunch stem_config) (w1\<lparr>launches_made := Suc (launches_made w1)\<rparr>)
      in case r of
           Launched proc \<Rightarrow>
             Some (Inr proc,
                   emit (EvLog LInfo (LaunchedOn (port self))) (emit (EvAtexit proc) w2))
         | LaunchOSError err \<Rightarrow>
             if \<not> kill_old_tor then
               Some (Inl (OSError err), emit (EvLog LError (LaunchFailed err)) w2)
             else
               (let procs = process_iter E (scans_made w2);
                    w3 = emit EvProcessIter (w2\<lparr>scans_made := Suc (scans_made w2)\<rparr>);
                    w4 = kill_tor_processes procs w3;
                    w5 = emit (EvLog LDebug KilledOldTor) w4
                in start_tor E self stem_config kill_old_tor (Suc times_tried) w5))"

section \<open>The constructor\<close>

text \<open>
  Lines 50 to 67 of \<^verbatim>\<open>TorInstance.__init__\<close>: the attributes \<^verbatim>\<open>tor_path\<close> and \<^verbatim>\<open>port\<close> and
  the configuration handed to the launcher. \<^verbatim>\<open>.get\<close> on a \<^verbatim>\<open>"config"\<close> entry that is not
  a dict raises \<^verbatim>\<open>AttributeError\<close>, \<^verbatim>\<open>int()\<close> on a string that is no number raises
  \<^verbatim>\<open>ValueError\<close>.
\<close>

definition init_port :: "env \<Rightarrow> int \<Rightarrow> config \<Rightarrow> error + int" where
  "init_port E socks_port stem_config =
     (case py_get stem_config ''config'' of
        Scalar SNone \<Rightarrow> Inr socks_port
      | Scalar _ \<Rightarrow> Inl AttributeError
      | Dict d \<Rightarrow>
          (case dict_get d ''SocksPort'' of
             SNone \<Rightarrow> Inr socks_port
           | SInt i \<Rightarrow> Inr i
           | SStr s \<Rightarrow> (case int_of_str E s of None \<Rightarrow> Inl ValueError | Some i \<Rightarrow> Inr i)))"

definition init_socks_port :: "int \<Rightarrow> config \<Rightarrow> error + config" where
  "init_socks_port self_port stem_config =
     (case py_get stem_config ''config'' of
        Scalar SNone \<Rightarrow>
          Inr (AList.update ''config'' (Dict [(''SocksPort'', SStr (str_int self_port))]) stem_config)
      | Scalar _ \<Rightarrow> Inl AttributeError
      | Dict d \<Rightarrow>
          (if dict_get d ''SocksPort'' = SNone then
             Inr (AList.update ''config''
                    (Dict (AList.update ''SocksPort'' (SStr (str_int self_port)) d)) stem_config)
           else
             Inr (AList.update ''config''
                    (Dict (AList.update ''SocksPort'' (SStr (py_str (dict_get d ''SocksPort''))) d))
                    stem_config)))"

definition init_config ::
  "env \<Rightarrow> int \<Rightarrow> string option \<Rightarrow> config option \<Rightarrow> error + pyval \<times> int \<times> config" where
  "init_config E socks_port tor_path_arg stem_config_arg =
     (let stem_config = (case stem_config_arg of None \<Rightarrow> [] | Some c \<Rightarrow> c);
          self_tor_path = (if py_get stem_config ''tor_cmd'' = Scalar SNone
                           then opt_str tor_path_arg else py_get stem_config ''tor_cmd'')
      in case init_port E socks_port stem_config of
           Inl e \<Rightarrow> Inl e
         | Inr self_port \<Rightarrow>
             (let stem_config1 = (if truthy tor_path_arg
                                  then AList.update ''tor_cmd'' self_tor_path stem_config
                                  else stem_config)
              in case init_socks_port self_port stem_config1 of
                   Inl e \<Rightarrow> Inl e
                 | Inr stem_config2 \<Rightarrow> Inr (self_tor_path, self_port, stem_config2)))"

text \<open>\<^verbatim>\<open>TorInstance(socks_port, tor_path, stem_config, kill_old_tor)\<close>: the new manager, or
  the exception that ends the construction.\<close>

definition TorInstance_init ::
  "env \<Rightarrow> int \<Rightarrow> string option \<Rightarrow> config option \<Rightarrow> bool \<Rightarrow> world
     \<Rightarrow> ((error + tor_instance) \<times> world) option" where
  "TorInstance_init E socks_port tor_path_arg stem_config_arg kill_old_tor w =
     (case init_config E socks_port tor_path_arg stem_config_arg of
        Inl e \<Rightarrow> Some (Inl e, w)
      | Inr (self_tor_path, self_port, stem_config) \<Rightarrow>
          (let self = \<lparr>tor_path = self_tor_path, port = self_port, current_session_number = 0,
                       current_sessions = [], tor_process = None, base_session = None\<rparr>
           in case start_tor E self stem_config kill_old_tor 0 w of
                None \<Rightarrow> None
              | Some (Inl e, w1) \<Rightarrow> Some (Inl e, w1)
              | Some (Inr p, w1) \<Rightarrow>
                  (case get_base_session E None 5 (self\<lparr>tor_process := Some p\<rparr>, w1) of
                     (Inl e, self2, w2) \<Rightarrow> Some (Inl e, w2)
                   | (Inr b, self2, w2) \<Rightarrow> Some (Inr (self2\<lparr>base_session := Some b\<rparr>), w2))))"

section \<open>Notions used to state the properties\<close>

text \<open>The proxies a session gets while the counter has its current value, the response
  the next probe through them receives, and whether that response passes or fails the
  check (an exception of the HTTP layer is neither).\<close>

definition tor_proxies :: "tor_instance \<Rightarrow> (string \<times> string) list" where
  "tor_proxies self = socks_proxies (credentials_of (current_session_number self)) (port self)"

fun passes :: "response \<Rightarrow> bool" where
  "passes (Body body) = str_in marker body"
| "passes TransportFailure = False"

fun fails :: "response \<Rightarrow> bool" where
  "fails (Body body) = (\<not> str_in marker body)"
| "fails TransportFailure = False"

definition probe_response :: "env \<Rightarrow> tor_instance \<Rightarrow> world \<Rightarrow> response" where
  "probe_response E self w = http_get E (gets_made w) (tor_proxies self)"

text \<open>The manager after \<^verbatim>\<open>self.current_sessions[self.current_session_number] = session\<close>,
  and the world after the proxies of \<open>s\<close> were set and the probe was made.\<close>

definition recorded :: "addr \<Rightarrow> tor_instance \<Rightarrow> tor_instance" where
  "recorded s self =
     self\<lparr>current_sessions :=
            AList.update (current_session_number self) s (current_sessions self)\<rparr>"

definition probed :: "env \<Rightarrow> addr \<Rightarrow> tor_instance \<Rightarrow> world \<Rightarrow> world" where
  "probed E s self w =
     w\<lparr>heap := (heap w)(s := (heap w s)\<lparr>proxies := tor_proxies self\<rparr>),
       gets_made := Suc (gets_made w),
       history := EvGet s (tor_proxies self) (probe_response E self w) # history w\<rparr>"

text \<open>A history (most recent event first) in which every insertion into the session
  mapping comes after a probe that the inserted client passed; and the most recent
  probe of a history.\<close>

fun passed_get :: "addr \<Rightarrow> event \<Rightarrow> bool" where
  "passed_get a (EvGet s px r) = (s = a \<and> passes r)"
| "passed_get a e = False"

fun inserts_verified :: "event list \<Rightarrow> bool" where
  "inserts_verified [] = True"
| "inserts_verified (EvInsert n a # h) = (list_ex (passed_get a) h \<and> inserts_verified h)"
| "inserts_verified (e # h) = inserts_verified h"

fun last_get :: "event list \<Rightarrow> (addr \<times> response) option" where
  "last_get [] = None"
| "last_get (EvGet s px r # h) = Some (s, r)"
| "last_get (e # h) = last_get h"

text \<open>The \<^verbatim>\<open>SocksPort\<close> entry of the nested \<^verbatim>\<open>"config"\<close> dict of a configuration, and
  \<^verbatim>\<open>int(v)\<close> of a scalar value.\<close>

definition socks_port_of :: "config \<Rightarrow> scalar" where
  "socks_port_of c = (case py_get c ''config'' of Dict d \<Rightarrow> dict_get d ''SocksPort'' | Scalar v \<Rightarrow> SNone)"

fun py_int :: "env \<Rightarrow> scalar \<Rightarrow> int option" where
  "py_int E SNone = None"
| "py_int E (SInt i) = Some i"
| "py_int E (SStr s) = int_of_str E s"

section \<open>Concrete environments and states\<close>

text \<open>An environment that answers the \<open>k\<close>-th GET with the \<open>k\<close>-th response of a list
  (and with a transport failure after the list's end), launches Tor at once, and knows
  no other process.\<close>

definition scripted :: "response list \<Rightarrow> env" where
  "scripted rs =
     \<lparr>http_get = (\<lambda>k px. if k < length rs then rs ! k else TransportFailure),
      launch_tor_with_config = (\<lambda>k c. Launched 4242),
      process_iter = (\<lambda>k. []),
      int_of_str = (\<lambda>s. None),
      debug_logging = False\<rparr>"

text \<open>An environment whose first launch attempt fails with \<^verbatim>\<open>OSError\<close>.\<close>

definition port_in_use :: env where
  "port_in_use =
     \<lparr>http_get = (\<lambda>k px. TransportFailure),
      launch_tor_with_config = (\<lambda>k c. if k = 0 then LaunchOSError ''in use'' else Launched 4242),
      process_iter = (\<lambda>k. [(7, ''tor''), (8, ''bash'')]),
      int_of_str = (\<lambda>s. None),
      debug_logging = False\<rparr>"

definition world0 :: world where
  "world0 =
     \<lparr>heap = (\<lambda>a. \<lparr>proxies = []\<rparr>), next_addr = 0, gets_made = 0, launches_made = 0,
      scans_made = 0, history = []\<rparr>"

text \<open>The manager as \<^verbatim>\<open>__init__\<close> has it when it calls \<^verbatim>\<open>_get_base_session\<close> (default
  arguments), and a manager whose construction succeeded at the first probe: the base
  session is object 0, recorded under number 0.\<close>

definition fresh_manager :: tor_instance where
  "fresh_manager =
     \<lparr>tor_path = Scalar SNone, port = 9051, current_session_number = 0, current_sessions = [],
      tor_process = Some 4242, base_session = None\<rparr>"

definition manager1 :: tor_instance where
  "manager1 =
     \<lparr>tor_path = Scalar SNone, port = 9051, current_session_number = 1,
      current_sessions = [(0, 0)], tor_process = Some 4242, base_session = Some 0\<rparr>"

text \<open>The world after that construction, and after the caller made one more
  \<^verbatim>\<open>requests.Session()\<close> (object 1) of its own.\<close>

definition world1 :: world where
  "world1 =
     \<lparr>heap = (\<lambda>a. \<lparr>proxies = []\<rparr>)(0 := \<lparr>proxies = socks_proxies ''tor0'' 9051\<rparr>),
      next_addr = 2, gets_made = 1, launches_made = 1, scans_made = 0,
      history = [EvInsert 0 0, EvLog LInfo BaseStarted,
                 EvGet 0 (socks_proxies ''tor0'' 9051) (Body marker),
                 EvLog LInfo (LaunchedOn 9051), EvAtexit 4242,
                 EvLaunch [(''config'', Dict [(''SocksPort'', SStr ''9051'')])],
                 EvLog LInfo (Launching 9051)]\<rparr>"

section \<open>Basic facts\<close>

text \<open>\<open>str_in\<close> is the substring relation.\<close>

lemma str_in_iff: "str_in m s \<longleftrightarrow> (\<exists>ps ss. s = ps @ m @ ss)"
proof (induction s)
  case Nil
  then show ?case by auto
next
  case (Cons c cs)
  show ?case
  proof
    assume "str_in m (c # cs)"
    then consider "take (length m) (c # cs) = m" | "str_in m cs" by auto
    then show "\<exists>ps ss. c # cs = ps @ m @ ss"
    proof cases
      case 1
      then have "c # cs = [] @ m @ drop (length m) (c # cs)"
        by (metis append_Nil append_take_drop_id)
      then show ?thesis by blast
    next
      case 2
      then obtain ps ss where "cs = ps @ m @ ss" using Cons.IH by blast
      then have "c # cs = (c # ps) @ m @ ss" by simp
      then show ?thesis by blast
    qed
  next
    assume "\<exists>ps ss. c # cs = ps @ m @ ss"
    then obtain ps ss where e: "c # cs = ps @ m @ ss" by blast
    show "str_in m (c # cs)"
    proof (cases ps)
      case Nil
      then have "take (length m) (c # cs) = m" using e by simp
      then show ?thesis by simp
    next
      case (Cons p ps')
      then have "cs = ps' @ m @ ss" using e by simp
      then have "str_in m cs" using Cons.IH by blast
      then show ?thesis by simp
    qed
  qed
qed

lemma check_tor_set_proxies:
  "check_tor E s (set_proxies s (tor_proxies self) w) =
     (case probe_response E self w of
        TransportFailure \<Rightarrow> Inl TransportError
      | Body body \<Rightarrow> Inr (str_in marker body), probed E s self w)"
  by (simp add: check_tor_def set_proxies_def probe_response_def probed_def emit_def Let_def
           split: response.split)

lemma set_proxies_emit: "emit e (set_proxies s px w) = set_proxies s px (emit e w)"
  by (simp add: emit_def set_proxies_def)

lemma probe_response_emit [simp]: "probe_response E self (emit e w) = probe_response E self w"
  by (simp add: probe_response_def emit_def)

lemma recorded_simps [simp]:
  "current_session_number (recorded s self) = current_session_number self"
  "port (recorded s self) = port self"
  "base_session (recorded s self) = base_session self"
  "tor_proxies (recorded s self) = tor_proxies self"
  by (simp_all add: recorded_def tor_proxies_def)

lemma probe_response_recorded [simp]:
  "probe_response E (recorded s self) w = probe_response E self w"
  by (simp add: probe_response_def)

lemma probed_simps [simp]:
  "gets_made (probed E s self w) = Suc (gets_made w)"
  "next_addr (probed E s self w) = next_addr w"
  "history (probed E s self w) = EvGet s (tor_proxies self) (probe_response E self w) # history w"
  "proxies (heap (probed E s self w) s) = tor_proxies self"
  "launches_made (probed E s self w) = launches_made w"
  "scans_made (probed E s self w) = scans_made w"
  by (simp_all add: probed_def)

lemma emit_simps [simp]:
  "gets_made (emit e w) = gets_made w"
  "next_addr (emit e w) = next_addr w"
  "history (emit e w) = e # history w"
  "heap (emit e w) = heap w"
  "launches_made (emit e w) = launches_made w"
  "scans_made (emit e w) = scans_made w"
  by (simp_all add: emit_def)

section \<open>One frame of each session constructor\<close>

lemma gswn_none:
  "parent_or_base p self = None \<Longrightarrow>
   get_session_with_number E p m (self, w) = (Inl AttributeError, self, w)"
  by (subst get_session_with_number.simps) simp

lemma gswn_unfold:
  "parent_or_base p self = Some s \<Longrightarrow>
   get_session_with_number E p m (self, w) =
     (let n = current_session_number self; w3 = probed E s self (emit (EvInsert n s) w) in
      case probe_response E self w of
        TransportFailure \<Rightarrow> (Inl TransportError, recorded s self, w3)
      | Body body \<Rightarrow>
          if str_in marker body then
            (Inr (s, n + 1), (recorded s self)\<lparr>current_session_number := n + 1\<rparr>,
             emit (EvLog LInfo (SessionWorks n)) w3)
          else if m \<le> 0 then
            (Inl (TorConnectionError (too_many_retrys n)),
             (recorded s self)\<lparr>current_session_number := n + 1\<rparr>,
             emit (EvLog LError (SessionFailed (too_many_retrys n))) w3)
          else
            get_session_with_number E (Some s) (m - 1)
              (recorded s self, emit (EvSleep 5) (emit (EvLog LError (SessionRetrying n)) w3)))"
  apply (subst get_session_with_number.simps)
  apply (simp add: Let_def set_proxies_emit tor_proxies_def [symmetric] check_tor_set_proxies recorded_def
         split: response.split)
  done

lemma gswn_pass:
  "parent_or_base p self = Some s \<Longrightarrow> passes (probe_response E self w) \<Longrightarrow>
   get_session_with_number E p m (self, w) =
     (Inr (s, current_session_number self + 1),
      (recorded s self)\<lparr>current_session_number := current_session_number self + 1\<rparr>,
      emit (EvLog LInfo (SessionWorks (current_session_number self)))
        (probed E s self (emit (EvInsert (current_session_number self) s) w)))"
  by (cases "probe_response E self w") (simp_all add: gswn_unfold Let_def)

lemma gswn_exhausted:
  "parent_or_base p self = Some s \<Longrightarrow> fails (probe_response E self w) \<Longrightarrow> m \<le> 0 \<Longrightarrow>
   get_session_with_number E p m (self, w) =
     (Inl (TorConnectionError (too_many_retrys (current_session_number self))),
      (recorded s self)\<lparr>current_session_number := current_session_number self + 1\<rparr>,
      emit (EvLog LError (SessionFailed (too_many_retrys (current_session_number self))))
        (probed E s self (emit (EvInsert (current_session_number self) s) w)))"
  by (cases "probe_response E self w") (simp_all add: gswn_unfold Let_def)

lemma gswn_retry:
  "parent_or_base p self = Some s \<Longrightarrow> fails (probe_response E self w) \<Longrightarrow> 0 < m \<Longrightarrow>
   get_session_with_number E p m (self, w) =
     get_session_with_number E (Some s) (m - 1)
       (recorded s self,
        emit (EvSleep 5) (emit (EvLog LError (SessionRetrying (current_session_number self)))
          (probed E s self (emit (EvInsert (current_session_number self) s) w))))"
  by (cases "probe_response E self w") (simp_all add: gswn_unfold Let_def)

lemma gswn_transport:
  "parent_or_base p self = Some s \<Longrightarrow> probe_response E self w = TransportFailure \<Longrightarrow>
   get_session_with_number E p m (self, w) =
     (Inl TransportError, recorded s self,
      probed E s self (emit (EvInsert (current_session_number self) s) w))"
  by (simp add: gswn_unfold Let_def)

lemma response_cases:
  obtains "passes r" | "fails r" | "r = TransportFailure"
  by (cases r) auto

lemma gbs_none:
  "get_base_session E None m (self, w) =
   get_base_session E (Some (next_addr w)) m (self, snd (new_session w))"
  apply (subst get_base_session.simps)
  apply (subst (2) get_base_session.simps)
  apply (simp add: new_session_def)
  done

lemma gbs_unfold:
  "get_base_session E (Some b) m (self, w) =
     (case probe_response E self w of
        TransportFailure \<Rightarrow> (Inl TransportError, self, probed E b self w)
      | Body body \<Rightarrow>
          if str_in marker body then base_started b (self, probed E b self w)
          else if m \<le> 0 then
            (Inl (TorConnectionError base_not_working), self,
             emit (EvLog LError (BaseNotWorking base_not_working)) (probed E b self w))
          else
            (case get_base_session E (Some b) (m - 1)
                    (self, emit (EvSleep 5) (emit (EvLog LError BaseRetrying) (probed E b self w))) of
               (Inl e, sw) \<Rightarrow> (Inl e, sw)
             | (Inr dropped, sw) \<Rightarrow> base_started b sw))"
  apply (subst get_base_session.simps)
  apply (simp add: Let_def tor_proxies_def [symmetric] check_tor_set_proxies
         split: response.split)
  done

lemma gbs_pass:
  "passes (probe_response E self w) \<Longrightarrow>
   get_base_session E (Some b) m (self, w) = base_started b (self, probed E b self w)"
  by (cases "probe_response E self w") (simp_all add: gbs_unfold)

lemma gbs_exhausted:
  "fails (probe_response E self w) \<Longrightarrow> m \<le> 0 \<Longrightarrow>
   get_base_session E (Some b) m (self, w) =
     (Inl (TorConnectionError base_not_working), self,
      emit (EvLog LError (BaseNotWorking base_not_working)) (probed E b self w))"
  by (cases "probe_response E self w") (simp_all add: gbs_unfold)

lemma gbs_retry:
  "fails (probe_response E self w) \<Longrightarrow> 0 < m \<Longrightarrow>
   get_base_session E (Some b) m (self, w) =
     (case get_base_session E (Some b) (m - 1)
             (self, emit (EvSleep 5) (emit (EvLog LError BaseRetrying) (probed E b self w))) of
        (Inl e, sw) \<Rightarrow> (Inl e, sw)
      | (Inr dropped, sw) \<Rightarrow> base_started b sw)"
  by (cases "probe_response E self w") (simp_all add: gbs_unfold)

lemma gbs_transport:
  "probe_response E self w = TransportFailure \<Longrightarrow>
   get_base_session E (Some b) m (self, w) = (Inl TransportError, self, probed E b self w)"
  by (simp add: gbs_unfold)

section \<open>Facts about the concrete environments and states\<close>

lemma marker_in_marker [simp]: "str_in marker marker"
  by (simp add: str_in_iff) (metis append_Nil append_Nil2)

lemma marker_not_empty [simp]: "marker \<noteq> []"
  by (simp add: marker_def)

lemma manager1_simps [simp]:
  "current_session_number manager1 = 1" "port manager1 = 9051" "base_session manager1 = Some 0"
  "current_sessions manager1 = [(0, 0)]"
  by (simp_all add: manager1_def)

lemma world1_simps [simp]:
  "gets_made world1 = 1" "next_addr world1 = 2"
  by (simp_all add: world1_def)

lemma scripted_get [simp]:
  "http_get (scripted rs) k px = (if k < length rs then rs ! k else TransportFailure)"
  by (simp add: scripted_def)

section \<open>The connectivity prober\<close>

text \<open>
  Claim C9. \<^verbatim>\<open>check_tor\<close> returns true exactly when the marker sentence occurs in the
  response body as a contiguous substring; an empty body and the marker without its
  punctuation give false; an exception of the HTTP layer is not caught and leaves the
  function as the error.
\<close>

theorem check_tor_marker:
  "(http_get E (gets_made w) (proxies (heap w s)) = Body body \<longrightarrow>
      fst (check_tor E s w) = Inr (\<exists>ps ss. body = ps @ marker @ ss)) \<and>
   (http_get E (gets_made w) (proxies (heap w s)) = TransportFailure \<longrightarrow>
      fst (check_tor E s w) = Inl TransportError) \<and>
   \<not> str_in marker '''' \<and>
   \<not> str_in marker ''Congratulations This browser is configured to use Tor''"
proof -
  have a: "fst (check_tor E s w) = Inr (\<exists>ps ss. body = ps @ marker @ ss)"
    if "http_get E (gets_made w) (proxies (heap w s)) = Body body"
    using that by (simp add: check_tor_def Let_def str_in_iff)
  have b: "fst (check_tor E s w) = Inl TransportError"
    if "http_get E (gets_made w) (proxies (heap w s)) = TransportFailure"
    using that by (simp add: check_tor_def Let_def)
  have c: "\<not> str_in marker ''''" by (simp add: marker_def)
  have d: "\<not> str_in marker ''Congratulations This browser is configured to use Tor''"
    by (simp add: marker_def)
  from a b c d show ?thesis by blast
qed

theorem check_tor_marker_witness:
  "http_get (scripted [Body (''<h1>'' @ marker @ ''</h1>'')]) (gets_made world0) (proxies (heap world0 0))
     = Body (''<h1>'' @ marker @ ''</h1>'') \<and>
   fst (check_tor (scripted [Body (''<h1>'' @ marker @ ''</h1>'')]) 0 world0) = Inr True"
proof -
  have h: "http_get (scripted [Body (''<h1>'' @ marker @ ''</h1>'')]) (gets_made world0) (proxies (heap world0 0))
     = Body (''<h1>'' @ marker @ ''</h1>'')"
    by (simp add: scripted_def world0_def)
  have "\<exists>ps ss. ''<h1>'' @ marker @ ''</h1>'' = ps @ marker @ ss" by blast
  then show ?thesis
    using h check_tor_marker [of "scripted [Body (''<h1>'' @ marker @ ''</h1>'')]" world0 0 "''<h1>'' @ marker @ ''</h1>''"]
    by simp
qed

section \<open>Numbered sessions\<close>

text \<open>
  Claim C2. Whenever \<^verbatim>\<open>get_session_with_number\<close> returns a pair or raises
  \<^verbatim>\<open>TorConnectionError\<close> (for any parent session and any \<^verbatim>\<open>max_tries\<close>), the session
  counter after the call is its value before the call plus one. The function is total,
  so every call ends; the other two ways it can end (an exception of the HTTP layer, a
  missing base session) are not the claim's.
\<close>

theorem counter_plus_one:
  "fst (get_session_with_number E p m (self, w)) = Inr x \<or>
   fst (get_session_with_number E p m (self, w)) = Inl (TorConnectionError msg) \<Longrightarrow>
   current_session_number (fst (snd (get_session_with_number E p m (self, w))))
     = current_session_number self + 1"
proof (induction "nat m" arbitrary: m p self w)
  case 0
  then have m: "m \<le> 0" by simp
  show ?case
  proof (cases "parent_or_base p self")
    case None
    then show ?thesis using "0.prems" by (simp add: gswn_none)
  next
    case (Some s)
    show ?thesis
    proof (cases "probe_response E self w" rule: response_cases)
      case 1
      then show ?thesis using Some by (simp add: gswn_pass)
    next
      case 2
      then show ?thesis using Some m by (simp add: gswn_exhausted)
    next
      case 3
      then show ?thesis using Some "0.prems" by (simp add: gswn_transport)
    qed
  qed
next
  case (Suc k)
  then have m: "0 < m" "k = nat (m - 1)" by simp_all
  show ?case
  proof (cases "parent_or_base p self")
    case None
    then show ?thesis using Suc.prems by (simp add: gswn_none)
  next
    case (Some s)
    show ?thesis
    proof (cases "probe_response E self w" rule: response_cases)
      case 1
      then show ?thesis using Some by (simp add: gswn_pass)
    next
      case 2
      let ?w = "emit (EvSleep 5) (emit (EvLog LError (SessionRetrying (current_session_number self)))
                   (probed E s self (emit (EvInsert (current_session_number self) s) w)))"
      have eq: "get_session_with_number E p m (self, w) =
                get_session_with_number E (Some s) (m - 1) (recorded s self, ?w)"
        using Some 2 m(1) by (rule gswn_retry)
      have "current_session_number (fst (snd (get_session_with_number E (Some s) (m - 1) (recorded s self, ?w))))
            = current_session_number (recorded s self) + 1"
        using Suc.hyps(1) [OF m(2)] Suc.prems unfolding eq by blast
      then show ?thesis unfolding eq by simp
    next
      case 3
      then show ?thesis using Some Suc.prems by (simp add: gswn_transport)
    qed
  qed
qed

theorem counter_plus_one_witness:
  "fst (get_session_with_number (scripted [Body marker, Body '''', Body '''', Body '''']) None 2
         (manager1, world1)) = Inl (TorConnectionError (too_many_retrys 1)) \<and>
   current_session_number (fst (snd (get_session_with_number
       (scripted [Body marker, Body '''', Body '''', Body '''']) None 2 (manager1, world1)))) = 2"
proof -
  have r: "fst (get_session_with_number (scripted [Body marker, Body '''', Body '''', Body '''']) None 2
         (manager1, world1)) = Inl (TorConnectionError (too_many_retrys 1))"
    by (simp add: gswn_unfold Let_def probe_response_def)
  from r counter_plus_one [of "scripted [Body marker, Body '''', Body '''', Body '''']" None 2 manager1 world1
       _ "too_many_retrys 1"]
  show ?thesis by simp
qed

lemma recorded_lookup [simp]:
  "map_of (current_sessions (recorded s self)) (current_session_number self) = Some s"
  by (simp add: recorded_def update_conv')

lemma recorded_recorded [simp]: "recorded s (recorded s self) = recorded s self"
  by (simp add: recorded_def)

lemma probe_response_at:
  "gets_made w' = g \<Longrightarrow> probe_response E self w' = http_get E g (tor_proxies self)"
  by (simp add: probe_response_def)

text \<open>
  Claim C1. A call of \<^verbatim>\<open>get_session_with_number\<close> that returns while the counter holds
  \<open>n\<close> hands back the client whose proxies carry the credentials of \<open>n\<close> and which is
  recorded under \<open>n\<close>, but the number in the returned pair is the counter after the
  increment, \<open>n + 1\<close>: the \<^verbatim>\<open>return\<close> statement reads \<^verbatim>\<open>self.current_session_number\<close>
  after \<^verbatim>\<open>+= 1\<close>.
\<close>

theorem returned_number_is_next:
  "fst (get_session_with_number E p m (self, w)) = Inr (s, k) \<Longrightarrow>
   k = current_session_number self + 1 \<and>
   proxies (heap (snd (snd (get_session_with_number E p m (self, w)))) s) = tor_proxies self \<and>
   map_of (current_sessions (fst (snd (get_session_with_number E p m (self, w)))))
     (current_session_number self) = Some s"
proof (induction "nat m" arbitrary: m p self w)
  case 0
  then have m: "m \<le> 0" by simp
  show ?case
  proof (cases "parent_or_base p self")
    case None
    then show ?thesis using "0.prems" by (simp add: gswn_none)
  next
    case (Some a)
    show ?thesis
    proof (cases "probe_response E self w" rule: response_cases)
      case 1
      then show ?thesis using Some "0.prems" by (simp add: gswn_pass)
    next
      case 2
      then show ?thesis using Some m "0.prems" by (simp add: gswn_exhausted)
    next
      case 3
      then show ?thesis using Some "0.prems" by (simp add: gswn_transport)
    qed
  qed
next
  case (Suc j)
  then have m: "0 < m" "j = nat (m - 1)" by simp_all
  show ?case
  proof (cases "parent_or_base p self")
    case None
    then show ?thesis using Suc.prems by (simp add: gswn_none)
  next
    case (Some a)
    show ?thesis
    proof (cases "probe_response E self w" rule: response_cases)
      case 1
      then show ?thesis using Some Suc.prems by (simp add: gswn_pass)
    next
      case 2
      let ?w = "emit (EvSleep 5) (emit (EvLog LError (SessionRetrying (current_session_number self)))
                   (probed E a self (emit (EvInsert (current_session_number self) a) w)))"
      have eq: "get_session_with_number E p m (self, w) =
                get_session_with_number E (Some a) (m - 1) (recorded a self, ?w)"
        using Some 2 m(1) by (rule gswn_retry)
      show ?thesis
        using Suc.hyps(1) [OF m(2), of "Some a" "recorded a self" ?w] Suc.prems
        unfolding eq by simp
    next
      case 3
      then show ?thesis using Some Suc.prems by (simp add: gswn_transport)
    qed
  qed
qed

theorem returned_number_is_next_witness:
  "fst (get_session_with_number (scripted [Body marker, Body marker]) None 5 (manager1, world1))
     = Inr (0, 2) \<and>
   (2::int) = current_session_number manager1 + 1 \<and>
   proxies (heap (snd (snd (get_session_with_number (scripted [Body marker, Body marker]) None 5
       (manager1, world1)))) 0) = socks_proxies ''tor1'' 9051 \<and>
   map_of (current_sessions (fst (snd (get_session_with_number
       (scripted [Body marker, Body marker]) None 5 (manager1, world1))))) 1 = Some 0"
proof -
  have r: "fst (get_session_with_number (scripted [Body marker, Body marker]) None 5 (manager1, world1))
     = Inr (0, 2)"
    by (simp add: gswn_unfold Let_def probe_response_def)
  have t: "tor_proxies manager1 = socks_proxies ''tor1'' 9051"
    by (simp add: tor_proxies_def credentials_of_def str_int_def str_nat.simps digit_char_def)
  from returned_number_is_next [OF r] t show ?thesis using r by simp
qed

text \<open>
  Claim C4. With \<^verbatim>\<open>max_tries = 0\<close> and a failing probe the call raises
  \<^verbatim>\<open>TorConnectionError\<close> in its first frame: the history gains the insertion, the one
  GET and the error log, and no sleep; the counter is incremented once.
\<close>

theorem zero_retries_fail_at_once:
  "parent_or_base p self = Some s \<Longrightarrow> fails (probe_response E self w) \<Longrightarrow>
   (case get_session_with_number E p 0 (self, w) of
      (r, self', w') \<Rightarrow>
        r = Inl (TorConnectionError (too_many_retrys (current_session_number self))) \<and>
        current_session_number self' = current_session_number self + 1 \<and>
        gets_made w' = gets_made w + 1 \<and>
        history w' =
          [EvLog LError (SessionFailed (too_many_retrys (current_session_number self))),
           EvGet s (tor_proxies self) (probe_response E self w),
           EvInsert (current_session_number self) s] @ history w)"
  by (simp add: gswn_exhausted)

theorem zero_retries_fail_at_once_witness:
  "parent_or_base None manager1 = Some 0 \<and>
   fails (probe_response (scripted [Body marker, Body '''']) manager1 world1) \<and>
   fst (get_session_with_number (scripted [Body marker, Body '''']) None 0 (manager1, world1))
     = Inl (TorConnectionError ''Failed to connect to Tor on session #1, too many retrys.'') \<and>
   current_session_number (fst (snd (get_session_with_number (scripted [Body marker, Body ''''])
       None 0 (manager1, world1)))) = 2 \<and>
   history (snd (snd (get_session_with_number (scripted [Body marker, Body '''']) None 0
       (manager1, world1)))) =
     [EvLog LError (SessionFailed ''Failed to connect to Tor on session #1, too many retrys.''),
      EvGet 0 (socks_proxies ''tor1'' 9051) (Body ''''),
      EvInsert 1 0] @ history world1"
proof -
  have a: "parent_or_base None manager1 = Some 0" by simp
  have b: "fails (probe_response (scripted [Body marker, Body '''']) manager1 world1)"
    by (simp add: probe_response_def)
  have t: "tor_proxies manager1 = socks_proxies ''tor1'' 9051"
    by (simp add: tor_proxies_def credentials_of_def str_int_def str_nat.simps digit_char_def)
  have u: "too_many_retrys 1 = ''Failed to connect to Tor on session #1, too many retrys.''"
    by (simp add: too_many_retrys_def str_int_def str_nat.simps digit_char_def)
  have v: "probe_response (scripted [Body marker, Body '''']) manager1 world1 = Body ''''"
    by (simp add: probe_response_def)
  from zero_retries_fail_at_once [OF a b] a b t u v show ?thesis
    by (simp split: prod.splits)
qed

text \<open>
  Claim C8. When the probe fails twice and passes the third time, with \<^verbatim>\<open>max_tries = 5\<close>,
  the three attempts use the same client \<open>s\<close> and the same proxies (those of the counter
  value \<open>n\<close> at the call), no session object is allocated, and the call returns \<open>s\<close>,
  recorded under \<open>n\<close> with the credentials of \<open>n\<close>. (The number in the returned pair is
  \<open>n + 1\<close>, as in claim C1.)
\<close>

theorem third_attempt_same_number:
  assumes s: "parent_or_base p self = Some s"
    and r0: "http_get E (gets_made w) (tor_proxies self) = r0" "fails r0"
    and r1: "http_get E (gets_made w + 1) (tor_proxies self) = r1" "fails r1"
    and r2: "http_get E (gets_made w + 2) (tor_proxies self) = r2" "passes r2"
  shows "case get_session_with_number E p 5 (self, w) of
      (r, self', w') \<Rightarrow>
        r = Inr (s, current_session_number self + 1) \<and>
        history w' =
          [EvLog LInfo (SessionWorks (current_session_number self)),
           EvGet s (tor_proxies self) r2,
           EvInsert (current_session_number self) s,
           EvSleep 5,
           EvLog LError (SessionRetrying (current_session_number self)),
           EvGet s (tor_proxies self) r1,
           EvInsert (current_session_number self) s,
           EvSleep 5,
           EvLog LError (SessionRetrying (current_session_number self)),
           EvGet s (tor_proxies self) r0,
           EvInsert (current_session_number self) s] @ history w \<and>
        next_addr w' = next_addr w \<and>
        proxies (heap w' s) = tor_proxies self \<and>
        map_of (current_sessions self') (current_session_number self) = Some s \<and>
        current_session_number self' = current_session_number self + 1"
proof -
  let ?n = "current_session_number self"
  let ?w1 = "emit (EvSleep 5) (emit (EvLog LError (SessionRetrying ?n))
               (probed E s self (emit (EvInsert ?n s) w)))"
  let ?w2 = "emit (EvSleep 5) (emit (EvLog LError (SessionRetrying ?n))
               (probed E s (recorded s self) (emit (EvInsert ?n s) ?w1)))"
  have p0: "probe_response E self w = r0"
    using r0(1) by (simp add: probe_response_def)
  have p1: "probe_response E (recorded s self) ?w1 = r1"
    using r1(1) by (simp add: probe_response_def)
  have p2: "probe_response E (recorded s self) ?w2 = r2"
    using r2(1) by (simp add: probe_response_def)
  have e0: "get_session_with_number E p 5 (self, w) =
            get_session_with_number E (Some s) 4 (recorded s self, ?w1)"
    using gswn_retry [of p self s E w 5] s r0(2) p0 by simp
  have e1: "get_session_with_number E (Some s) 4 (recorded s self, ?w1) =
            get_session_with_number E (Some s) 3 (recorded s self, ?w2)"
    using gswn_retry [of "Some s" "recorded s self" s E ?w1 4] r1(2) p1 by simp
  have e2: "get_session_with_number E (Some s) 3 (recorded s self, ?w2) =
            (Inr (s, ?n + 1), (recorded s self)\<lparr>current_session_number := ?n + 1\<rparr>,
             emit (EvLog LInfo (SessionWorks ?n))
               (probed E s (recorded s self) (emit (EvInsert ?n s) ?w2)))"
    using gswn_pass [of "Some s" "recorded s self" s E ?w2 3] r2(2) p2 by simp
  show ?thesis
    unfolding e0 e1 e2 using p0 p1 p2 by simp
qed

theorem third_attempt_same_number_witness:
  "parent_or_base (Some 1) manager1 = Some 1 \<and>
   fails (Body '''') \<and> passes (Body marker) \<and>
   (case get_session_with_number (scripted [Body marker, Body '''', Body '''', Body marker])
           (Some 1) 5 (manager1, world1) of
      (r, self', w') \<Rightarrow>
        r = Inr (1, 2) \<and>
        history w' =
          [EvLog LInfo (SessionWorks 1),
           EvGet 1 (socks_proxies ''tor1'' 9051) (Body marker),
           EvInsert 1 1,
           EvSleep 5,
           EvLog LError (SessionRetrying 1),
           EvGet 1 (socks_proxies ''tor1'' 9051) (Body ''''),
           EvInsert 1 1,
           EvSleep 5,
           EvLog LError (SessionRetrying 1),
           EvGet 1 (socks_proxies ''tor1'' 9051) (Body ''''),
           EvInsert 1 1] @ history world1 \<and>
        next_addr w' = 2 \<and>
        proxies (heap w' 1) = socks_proxies ''tor1'' 9051 \<and>
        map_of (current_sessions self') 1 = Some 1 \<and>
        current_session_number self' = 2)"
proof -
  let ?E = "scripted [Body marker, Body '''', Body '''', Body marker]"
  have t: "tor_proxies manager1 = socks_proxies ''tor1'' 9051"
    by (simp add: tor_proxies_def credentials_of_def str_int_def str_nat.simps digit_char_def)
  have a: "parent_or_base (Some 1) manager1 = Some 1" by simp
  have r0: "http_get ?E (gets_made world1) (tor_proxies manager1) = Body ''''" by simp
  have r1: "http_get ?E (gets_made world1 + 1) (tor_proxies manager1) = Body ''''" by simp
  have r2: "http_get ?E (gets_made world1 + 2) (tor_proxies manager1) = Body marker" by simp
  have f: "fails (Body '''')" by simp
  have g: "passes (Body marker)" by simp
  from third_attempt_same_number [OF a r0 f r1 f r2 g] t f g show ?thesis
    by (simp split: prod.splits)
qed

section \<open>Base-session construction\<close>

lemma update_new_key: "k \<notin> fst ` set al \<Longrightarrow> AList.update k v al = al @ [(k, v)]"
  by (induction al) auto

lemma base_insert_simps [simp]:
  "current_session_number (base_insert b self) = current_session_number self + 1"
  "port (base_insert b self) = port self"
  "current_sessions (base_insert b self) =
     AList.update (current_session_number self) b (current_sessions self)"
  by (simp_all add: base_insert_def)

lemma base_insert_funpow_number:
  "current_session_number ((base_insert b ^^ j) self) = current_session_number self + int j"
  by (induction j) simp_all

lemma base_insert_funpow_sessions:
  "current_session_number self = 0 \<Longrightarrow> current_sessions self = [] \<Longrightarrow>
   current_sessions ((base_insert b ^^ j) self) = map (\<lambda>i. (int i, b)) [0..<j]"
proof (induction j)
  case 0
  then show ?case by simp
next
  case (Suc j)
  have "int j \<notin> fst ` set (map (\<lambda>i. (int i, b)) [0..<j])" by auto
  then show ?case
    using Suc by (simp add: base_insert_funpow_number update_new_key)
qed

lemma base_started_simp:
  "base_started b (self, w) =
     (Inr b, base_insert b self,
      emit (EvInsert (current_session_number self) b) (emit (EvLog LInfo BaseStarted) w))"
  by (simp add: base_started_def)

lemma gbs_fail_then_pass:
  "\<forall>i<k. fails (http_get E (gets_made w + i) (tor_proxies self)) \<Longrightarrow>
   passes (http_get E (gets_made w + k) (tor_proxies self)) \<Longrightarrow>
   int k \<le> m \<Longrightarrow>
   \<exists>w'. get_base_session E (Some b) m (self, w) = (Inr b, (base_insert b ^^ Suc k) self, w') \<and>
        gets_made w' = gets_made w + Suc k \<and>
        next_addr w' = next_addr w \<and>
        proxies (heap w' b) = tor_proxies self \<and>
        count_list (history w') (EvLog LInfo BaseStarted) =
          count_list (history w) (EvLog LInfo BaseStarted) + Suc k"
proof (induction k arbitrary: m w)
  case 0
  then have "passes (probe_response E self w)" by (simp add: probe_response_def)
  then show ?case by (simp add: gbs_pass base_started_simp)
next
  case (Suc k)
  let ?w1 = "emit (EvSleep 5) (emit (EvLog LError BaseRetrying) (probed E b self w))"
  from Suc.prems(1) have "fails (http_get E (gets_made w + 0) (tor_proxies self))" by blast
  then have f: "fails (probe_response E self w)" by (simp add: probe_response_def)
  have m: "0 < m" using Suc.prems(3) by simp
  have a: "\<forall>i<k. fails (http_get E (gets_made ?w1 + i) (tor_proxies self))"
    using Suc.prems(1) by auto
  have b: "passes (http_get E (gets_made ?w1 + k) (tor_proxies self))"
    using Suc.prems(2) by simp
  have c: "int k \<le> m - 1" using Suc.prems(3) by simp
  from Suc.IH [OF a b c] obtain w' where
    w': "get_base_session E (Some b) (m - 1) (self, ?w1) = (Inr b, (base_insert b ^^ Suc k) self, w')"
      "gets_made w' = gets_made ?w1 + Suc k" "next_addr w' = next_addr ?w1"
      "proxies (heap w' b) = tor_proxies self"
      "count_list (history w') (EvLog LInfo BaseStarted) =
          count_list (history ?w1) (EvLog LInfo BaseStarted) + Suc k"
    by blast
  show ?case
    using w' by (simp add: gbs_retry [OF f m] base_started_simp)
qed

lemma fresh_manager_simps [simp]:
  "current_session_number fresh_manager = 0" "port fresh_manager = 9051"
  "current_sessions fresh_manager = []"
  by (simp_all add: fresh_manager_def)

lemma world0_simps [simp]:
  "gets_made world0 = 0" "next_addr world0 = 0" "history world0 = []"
  by (simp_all add: world0_def)

text \<open>
  Claim C10. When the base-session probe fails \<open>k\<close> times and then passes, with
  \<open>k\<close> within \<^verbatim>\<open>max_tries\<close>, every one of the \<open>k + 1\<close> frames goes through the lines
  after the \<^verbatim>\<open>if\<close>: the construction (counter 0, empty mapping) ends with the counter
  at \<open>k + 1\<close>, the one new client recorded under each of the numbers \<open>0, \<dots>, k\<close>,
  \<open>k + 1\<close> GETs made and \<open>k + 1\<close> success logs written. (The statement also holds for
  \<open>k = 0\<close>, the run without a failure.)
\<close>

theorem base_counts_every_frame:
  assumes "current_session_number self = 0" and "current_sessions self = []"
    and "\<forall>i<k. fails (http_get E (gets_made w + i) (tor_proxies self))"
    and "passes (http_get E (gets_made w + k) (tor_proxies self))"
    and "int k \<le> m"
  shows "case get_base_session E None m (self, w) of
      (r, self', w') \<Rightarrow>
        r = Inr (next_addr w) \<and>
        current_session_number self' = int k + 1 \<and>
        current_sessions self' = map (\<lambda>i. (int i, next_addr w)) [0..<k + 1] \<and>
        gets_made w' = gets_made w + k + 1 \<and>
        next_addr w' = next_addr w + 1 \<and>
        count_list (history w') (EvLog LInfo BaseStarted) =
          count_list (history w) (EvLog LInfo BaseStarted) + k + 1"
proof -
  let ?w0 = "snd (new_session w)"
  have g: "gets_made ?w0 = gets_made w" "history ?w0 = history w" "next_addr ?w0 = Suc (next_addr w)"
    by (simp_all add: new_session_def)
  from gbs_fail_then_pass [of k E ?w0 self m "next_addr w"] assms(3-5) g
  obtain w' where
    w': "get_base_session E (Some (next_addr w)) m (self, ?w0) =
           (Inr (next_addr w), (base_insert (next_addr w) ^^ Suc k) self, w')"
      "gets_made w' = gets_made w + Suc k" "next_addr w' = Suc (next_addr w)"
      "count_list (history w') (EvLog LInfo BaseStarted) =
          count_list (history w) (EvLog LInfo BaseStarted) + Suc k"
    by auto
  have n: "current_session_number ((base_insert (next_addr w) ^^ Suc k) self) = int k + 1"
    using assms(1) by (simp add: base_insert_funpow_number del: funpow.simps)
  have s: "current_sessions ((base_insert (next_addr w) ^^ Suc k) self) =
           map (\<lambda>i. (int i, next_addr w)) [0..<k + 1]"
    by (simp add: base_insert_funpow_sessions [OF assms(1,2)] del: funpow.simps)
  show ?thesis
    unfolding gbs_none w'(1) using n s w'(2-4) by simp
qed

theorem base_counts_every_frame_witness:
  "current_session_number fresh_manager = 0 \<and> current_sessions fresh_manager = [] \<and>
   fails (Body '''') \<and> passes (Body marker) \<and> int 2 \<le> 5 \<and>
   (case get_base_session (scripted [Body '''', Body '''', Body marker]) None 5
           (fresh_manager, world0) of
      (r, self', w') \<Rightarrow>
        r = Inr 0 \<and> current_session_number self' = 3 \<and>
        current_sessions self' = [(0, 0), (1, 0), (2, 0)] \<and>
        gets_made w' = 3 \<and>
        count_list (history w') (EvLog LInfo BaseStarted) = 3)"
proof -
  let ?E = "scripted [Body '''', Body '''', Body marker]"
  have a: "\<forall>i<2. fails (http_get ?E (gets_made world0 + i) (tor_proxies fresh_manager))"
    by (auto simp: less_2_cases_iff)
  have b: "passes (http_get ?E (gets_made world0 + 2) (tor_proxies fresh_manager))"
    by simp
  have c: "int 2 \<le> 5" by simp
  have d: "[0..<2 + 1] = [0, 1, 2]" by (simp add: upt_rec)
  from base_counts_every_frame [of fresh_manager 2 ?E world0 5, OF _ _ a b c] d
  show ?thesis by (simp split: prod.splits)
qed

lemma gbs_error_keeps_manager:
  "fst (get_base_session E (Some b) m (self, w)) = Inl e \<Longrightarrow>
   fst (snd (get_base_session E (Some b) m (self, w))) = self"
proof (induction "nat m" arbitrary: m w e)
  case 0
  then have m: "m \<le> 0" by simp
  show ?case
  proof (cases "probe_response E self w" rule: response_cases)
    case 1
    then show ?thesis using "0.prems" by (simp add: gbs_pass base_started_simp)
  next
    case 2
    then show ?thesis using m by (simp add: gbs_exhausted)
  next
    case 3
    then show ?thesis by (simp add: gbs_transport)
  qed
next
  case (Suc j)
  then have m: "0 < m" "j = nat (m - 1)" by simp_all
  show ?case
  proof (cases "probe_response E self w" rule: response_cases)
    case 1
    then show ?thesis using Suc.prems by (simp add: gbs_pass base_started_simp)
  next
    case 2
    let ?w1 = "emit (EvSleep 5) (emit (EvLog LError BaseRetrying) (probed E b self w))"
    obtain r self' w' where
      rec: "get_base_session E (Some b) (m - 1) (self, ?w1) = (r, self', w')"
      by (metis prod_cases3)
    show ?thesis
    proof (cases r)
      case (Inl e')
      then have "self' = self"
        using Suc.hyps(1) [OF m(2), of ?w1] rec by simp
      then show ?thesis using rec Inl by (simp add: gbs_retry [OF 2 m(1)])
    next
      case (Inr x)
      then show ?thesis using rec Suc.prems by (simp add: gbs_retry [OF 2 m(1)] base_started_simp)
    qed
  next
    case 3
    then show ?thesis by (simp add: gbs_transport)
  qed
qed

text \<open>
  Claim C3, as amended. Base-session construction is not the algorithm of numbered
  creation: it records the client only after the probe step, and when the probe fails
  with no retries remaining it raises \<^verbatim>\<open>TorConnectionError\<close> without touching the
  manager. More generally, whenever the construction raises, the counter and the
  session mapping are what they were before the call.
\<close>

theorem base_exhausted_counter_unchanged:
  "(fails (probe_response E self w) \<and> m \<le> 0 \<longrightarrow>
      fst (get_base_session E p m (self, w)) = Inl (TorConnectionError base_not_working)) \<and>
   (fst (get_base_session E p m (self, w)) = Inl e \<longrightarrow>
      current_session_number (fst (snd (get_base_session E p m (self, w))))
        = current_session_number self \<and>
      current_sessions (fst (snd (get_base_session E p m (self, w)))) = current_sessions self)"
proof (cases p)
  case None
  have "probe_response E self (snd (new_session w)) = probe_response E self w"
    by (simp add: probe_response_def new_session_def)
  then show ?thesis
    using gbs_error_keeps_manager [of E "next_addr w" m self "snd (new_session w)" e]
    by (simp add: None gbs_none gbs_exhausted)
next
  case (Some b)
  then show ?thesis
    using gbs_error_keeps_manager [of E b m self w e] by (simp add: gbs_exhausted)
qed

theorem base_exhausted_counter_unchanged_witness:
  "fails (probe_response (scripted [Body '''']) fresh_manager world0) \<and> (0::int) \<le> 0 \<and>
   fst (get_base_session (scripted [Body '''']) None 0 (fresh_manager, world0))
     = Inl (TorConnectionError base_not_working) \<and>
   current_session_number (fst (snd (get_base_session (scripted [Body '''']) None 0
     (fresh_manager, world0)))) = 0 \<and>
   current_sessions (fst (snd (get_base_session (scripted [Body '''']) None 0
     (fresh_manager, world0)))) = []"
proof -
  have f: "fails (probe_response (scripted [Body '''']) fresh_manager world0)"
    by (simp add: probe_response_def)
  from base_exhausted_counter_unchanged
         [of "scripted [Body '''']" fresh_manager world0 0 None "TorConnectionError base_not_working"] f
  show ?thesis by simp
qed

text \<open>The claim as stated fails: six failing probes exhaust the constructor's budget of
  five retries, the error is raised, and the counter has not been incremented.\<close>

theorem base_exhausted_counterexample:
  "fst (get_base_session (scripted [Body '''', Body '''', Body '''', Body '''', Body '''', Body ''''])
          None 5 (fresh_manager, world0)) = Inl (TorConnectionError base_not_working) \<and>
   current_session_number (fst (snd (get_base_session
       (scripted [Body '''', Body '''', Body '''', Body '''', Body '''', Body '''']) None 5
       (fresh_manager, world0)))) \<noteq> current_session_number fresh_manager + 1"
  by (simp add: gbs_none gbs_unfold probe_response_def new_session_def)

section \<open>Probes and insertions\<close>

lemma gbs_inserts_verified:
  "inserts_verified (history w) \<Longrightarrow>
   inserts_verified (history (snd (snd (get_base_session E (Some b) m (self, w))))) \<and>
   (\<not> isl (fst (get_base_session E (Some b) m (self, w))) \<longrightarrow>
      list_ex (passed_get b) (history (snd (snd (get_base_session E (Some b) m (self, w))))))"
proof (induction "nat m" arbitrary: m w)
  case 0
  then have m: "m \<le> 0" by simp
  show ?case
  proof (cases "probe_response E self w" rule: response_cases)
    case 1
    then show ?thesis using "0.prems" by (simp add: gbs_pass base_started_simp)
  next
    case 2
    then show ?thesis using m "0.prems" by (simp add: gbs_exhausted)
  next
    case 3
    then show ?thesis using "0.prems" by (simp add: gbs_transport)
  qed
next
  case (Suc j)
  then have m: "0 < m" "j = nat (m - 1)" by simp_all
  show ?case
  proof (cases "probe_response E self w" rule: response_cases)
    case 1
    then show ?thesis using Suc.prems by (simp add: gbs_pass base_started_simp)
  next
    case 2
    let ?w1 = "emit (EvSleep 5) (emit (EvLog LError BaseRetrying) (probed E b self w))"
    obtain r self' w' where
      rec: "get_base_session E (Some b) (m - 1) (self, ?w1) = (r, self', w')"
      by (metis prod_cases3)
    have iv: "inserts_verified (history ?w1)" using Suc.prems by simp
    show ?thesis
    proof (cases r)
      case (Inl e')
      then show ?thesis
        using Suc.hyps(1) [OF m(2) iv] rec by (simp add: gbs_retry [OF 2 m(1)])
    next
      case (Inr y)
      then show ?thesis
        using Suc.hyps(1) [OF m(2) iv] rec
        by (simp add: gbs_retry [OF 2 m(1)] base_started_simp)
    qed
  next
    case 3
    then show ?thesis using Suc.prems by (simp add: gbs_transport)
  qed
qed

lemma gswn_last_get:
  "fst (get_session_with_number E p m (self, w)) = Inr (s, k) \<Longrightarrow>
   \<exists>r. last_get (history (snd (snd (get_session_with_number E p m (self, w))))) = Some (s, r) \<and>
       passes r"
proof (induction "nat m" arbitrary: m p self w)
  case 0
  then have m: "m \<le> 0" by simp
  show ?case
  proof (cases "parent_or_base p self")
    case None
    then show ?thesis using "0.prems" by (simp add: gswn_none)
  next
    case (Some a)
    show ?thesis
    proof (cases "probe_response E self w" rule: response_cases)
      case 1
      then show ?thesis using Some "0.prems" by (simp add: gswn_pass)
    next
      case 2
      then show ?thesis using Some m "0.prems" by (simp add: gswn_exhausted)
    next
      case 3
      then show ?thesis using Some "0.prems" by (simp add: gswn_transport)
    qed
  qed
next
  case (Suc j)
  then have m: "0 < m" "j = nat (m - 1)" by simp_all
  show ?case
  proof (cases "parent_or_base p self")
    case None
    then show ?thesis using Suc.prems by (simp add: gswn_none)
  next
    case (Some a)
    show ?thesis
    proof (cases "probe_response E self w" rule: response_cases)
      case 1
      then show ?thesis using Some Suc.prems by (simp add: gswn_pass)
    next
      case 2
      let ?w = "emit (EvSleep 5) (emit (EvLog LError (SessionRetrying (current_session_number self)))
                   (probed E a self (emit (EvInsert (current_session_number self) a) w)))"
      have eq: "get_session_with_number E p m (self, w) =
                get_session_with_number E (Some a) (m - 1) (recorded a self, ?w)"
        using Some 2 m(1) by (rule gswn_retry)
      show ?thesis
        using Suc.hyps(1) [OF m(2), of "Some a" "recorded a self" ?w] Suc.prems
        unfolding eq by simp
    next
      case 3
      then show ?thesis using Some Suc.prems by (simp add: gswn_transport)
    qed
  qed
qed

text \<open>
  Claim C7, as amended. Base-session construction inserts a client into the session
  mapping only after a probe that the client passed. Numbered creation inserts the
  client before it probes it; what holds there is that a call returns a session only
  when the most recent probe was made with that session and passed, so a failed probe
  never yields a returned session.
\<close>

theorem returned_session_passed_last_probe:
  "(inserts_verified (history w0) \<longrightarrow>
      inserts_verified (history (snd (snd (get_base_session E0 p0 m0 (self0, w0)))))) \<and>
   (fst (get_session_with_number E p m (self, w)) = Inr (s, k) \<longrightarrow>
      (\<exists>r. last_get (history (snd (snd (get_session_with_number E p m (self, w))))) = Some (s, r) \<and>
           passes r))"
proof (cases p0)
  case None
  have "history (snd (new_session w0)) = history w0" by (simp add: new_session_def)
  then show ?thesis
    using gbs_inserts_verified [of "snd (new_session w0)" E0 "next_addr w0" m0 self0]
          gswn_last_get [of E p m self w s k]
    by (simp add: None gbs_none)
next
  case (Some b)
  then show ?thesis
    using gbs_inserts_verified [of w0 E0 b m0 self0] gswn_last_get [of E p m self w s k]
    by simp
qed

theorem returned_session_passed_last_probe_witness:
  "inserts_verified (history world0) \<and>
   inserts_verified (history (snd (snd (get_base_session
       (scripted [Body '''', Body marker]) None 5 (fresh_manager, world0))))) \<and>
   fst (get_session_with_number (scripted [Body marker, Body '''', Body marker]) (Some 1) 5
       (manager1, world1)) = Inr (1, 2) \<and>
   (\<exists>r. last_get (history (snd (snd (get_session_with_number
       (scripted [Body marker, Body '''', Body marker]) (Some 1) 5 (manager1, world1)))))
         = Some (1, r) \<and> passes r)"
proof -
  let ?E = "scripted [Body marker, Body '''', Body marker]"
  have a: "inserts_verified (history world0)" by simp
  have b: "fst (get_session_with_number ?E (Some 1) 5 (manager1, world1)) = Inr (1, 2)"
    by (simp add: gswn_unfold Let_def probe_response_def)
  from returned_session_passed_last_probe
         [of world0 "scripted [Body '''', Body marker]" None 5 fresh_manager ?E "Some 1" 5 manager1 world1 1 2]
       a b
  show ?thesis by simp
qed

text \<open>The claim as stated fails: a call with a client of the caller's own, whose first
  probe fails and whose second passes, returns normally, and its second insertion
  comes after a failed probe and before any probe that this client passed.\<close>

theorem insertion_before_probe_counterexample:
  "fst (get_session_with_number (scripted [Body marker, Body '''', Body marker]) (Some 1) 5
       (manager1, world1)) = Inr (1, 2) \<and>
   \<not> inserts_verified (history (snd (snd (get_session_with_number
       (scripted [Body marker, Body '''', Body marker]) (Some 1) 5 (manager1, world1)))))"
  by (simp add: gswn_unfold Let_def probe_response_def world1_def)

section \<open>The launcher\<close>

text \<open>
  Claim C6. With \<^verbatim>\<open>kill_old_tor = False\<close>, a launch attempt that fails with \<^verbatim>\<open>OSError\<close>
  ends \<^verbatim>\<open>_start_tor\<close> with that error: the history gains the launch log, the one launch
  attempt and the error log; the process list is not read, nothing is killed, and no
  second attempt is made.
\<close>

theorem launch_conflict_is_fatal:
  "launch_tor_with_config E (launches_made w) stem_config = LaunchOSError err \<Longrightarrow>
   (case start_tor E self stem_config False times_tried w of
      None \<Rightarrow> False
    | Some (r, w') \<Rightarrow>
        r = Inl (OSError err) \<and>
        history w' =
          [EvLog LError (LaunchFailed err),
           EvLaunch stem_config,
           (if debug_logging E then EvLog LDebug (LaunchingWithConfig (port self) stem_config)
            else EvLog LInfo (Launching (port self)))] @ history w \<and>
        launches_made w' = launches_made w + 1 \<and>
        scans_made w' = scans_made w)"
  by (subst start_tor.simps) (simp add: Let_def)

theorem launch_conflict_is_fatal_witness:
  "launch_tor_with_config port_in_use (launches_made world0) [] = LaunchOSError ''in use'' \<and>
   (case start_tor port_in_use fresh_manager [] False 0 world0 of
      None \<Rightarrow> False
    | Some (r, w') \<Rightarrow>
        r = Inl (OSError ''in use'') \<and>
        history w' = [EvLog LError (LaunchFailed ''in use''), EvLaunch [], EvLog LInfo (Launching 9051)] \<and>
        launches_made w' = 1 \<and> scans_made w' = 0)"
proof -
  have a: "launch_tor_with_config port_in_use (launches_made world0) [] = LaunchOSError ''in use''"
    by (simp add: port_in_use_def world0_def)
  have b: "\<not> debug_logging port_in_use" "scans_made world0 = 0" "launches_made world0 = 0"
    by (simp_all add: port_in_use_def world0_def)
  from launch_conflict_is_fatal [OF a, of fresh_manager 0] a b show ?thesis
    by (simp split: option.splits prod.splits)
qed

section \<open>The configuration the constructor builds\<close>

lemma py_get_update [simp]:
  "py_get (AList.update k v c) k' = (if k' = k then v else py_get c k')"
  by (simp add: py_get_def update_conv')

lemma dict_get_update [simp]:
  "dict_get (AList.update k v d) k' = (if k' = k then v else dict_get d k')"
  by (simp add: dict_get_def update_conv')

lemma dict_get_single [simp]: "dict_get [(k, v)] k = v"
  by (simp add: dict_get_def)

lemma init_port_value:
  "init_port E socks_port c = Inr p \<Longrightarrow>
   (socks_port_of c \<noteq> SNone \<longrightarrow> py_int E (socks_port_of c) = Some p) \<and>
   (socks_port_of c = SNone \<longrightarrow> p = socks_port)"
  by (auto simp: init_port_def socks_port_of_def split: pyval.splits scalar.splits option.splits)

lemma init_socks_port_value:
  "init_socks_port p c = Inr c' \<Longrightarrow>
   socks_port_of c' = (if socks_port_of c = SNone then SStr (str_int p)
                       else SStr (py_str (socks_port_of c))) \<and>
   py_get c' ''tor_cmd'' = py_get c ''tor_cmd''"
  by (auto simp: init_socks_port_def socks_port_of_def split: pyval.splits scalar.splits if_splits)

lemma str_int_examples [simp]:
  "str_int 9051 = ''9051''" "str_int 9050 = ''9050''" "str_int 0 = ''0''" "str_int 1 = ''1''"
  by (simp_all add: str_int_def str_nat.simps digit_char_def)

text \<open>
  Claim C5, as amended. A key counts as supplied when the map gives it a value other
  than \<^verbatim>\<open>None\<close>. For \<^verbatim>\<open>tor_cmd\<close>: a supplied value is the recorded path and stays in the
  merged configuration; otherwise the recorded path is the \<^verbatim>\<open>tor_path\<close> argument, which
  is written into the merged configuration when it is true. For \<^verbatim>\<open>SocksPort\<close>: a
  supplied value \<open>v\<close> gives the recorded port \<^verbatim>\<open>int(v)\<close> and the merged entry
  \<^verbatim>\<open>str(v)\<close>; otherwise the recorded port is the \<^verbatim>\<open>socks_port\<close> argument and the merged
  entry is its decimal string.
\<close>

theorem init_config_merge:
  assumes "init_config E socks_port tor_path_arg stem_config_arg = Inr (self_tor_path, self_port, merged)"
    and "supplied = (case stem_config_arg of None \<Rightarrow> [] | Some c \<Rightarrow> c)"
  shows "(py_get supplied ''tor_cmd'' \<noteq> Scalar SNone \<longrightarrow>
            self_tor_path = py_get supplied ''tor_cmd'' \<and>
            py_get merged ''tor_cmd'' = py_get supplied ''tor_cmd'') \<and>
         (py_get supplied ''tor_cmd'' = Scalar SNone \<longrightarrow>
            self_tor_path = opt_str tor_path_arg \<and>
            py_get merged ''tor_cmd'' =
              (if truthy tor_path_arg then opt_str tor_path_arg else Scalar SNone)) \<and>
         (socks_port_of supplied \<noteq> SNone \<longrightarrow>
            py_int E (socks_port_of supplied) = Some self_port \<and>
            socks_port_of merged = SStr (py_str (socks_port_of supplied))) \<and>
         (socks_port_of supplied = SNone \<longrightarrow>
            self_port = socks_port \<and> socks_port_of merged = SStr (str_int socks_port))"
proof -
  let ?c1 = "if truthy tor_path_arg then AList.update ''tor_cmd'' self_tor_path supplied else supplied"
  from assms have tp: "self_tor_path = (if py_get supplied ''tor_cmd'' = Scalar SNone
                           then opt_str tor_path_arg else py_get supplied ''tor_cmd'')"
    by (auto simp: init_config_def Let_def split: sum.splits)
  from assms have ip: "init_port E socks_port supplied = Inr self_port"
    by (auto simp: init_config_def Let_def split: sum.splits)
  from assms tp ip have isp: "init_socks_port self_port ?c1 = Inr merged"
    by (auto simp: init_config_def Let_def split: sum.splits)
  have sp1: "socks_port_of ?c1 = socks_port_of supplied"
    by (simp add: socks_port_of_def)
  have tc1: "py_get ?c1 ''tor_cmd'' = (if truthy tor_path_arg then self_tor_path else py_get supplied ''tor_cmd'')"
    by simp
  from init_port_value [OF ip] init_socks_port_value [OF isp] sp1 tc1 tp
  show ?thesis by auto
qed

theorem init_config_merge_witness:
  "init_config (scripted []) 9051 (Some ''/usr/bin/tor'')
     (Some [(''tor_cmd'', Scalar (SStr ''/opt/tor'')), (''config'', Dict [(''SocksPort'', SInt 9050)])])
   = Inr (Scalar (SStr ''/opt/tor''), 9050,
          [(''tor_cmd'', Scalar (SStr ''/opt/tor'')), (''config'', Dict [(''SocksPort'', SStr ''9050'')])]) \<and>
   py_int (scripted []) (SInt 9050) = Some 9050 \<and>
   init_config (scripted []) 9051 (Some ''/usr/bin/tor'') None
   = Inr (Scalar (SStr ''/usr/bin/tor''), 9051,
          [(''tor_cmd'', Scalar (SStr ''/usr/bin/tor'')), (''config'', Dict [(''SocksPort'', SStr ''9051'')])]) \<and>
   socks_port_of [(''tor_cmd'', Scalar (SStr ''/usr/bin/tor'')), (''config'', Dict [(''SocksPort'', SStr ''9051'')])]
   = SStr (str_int 9051)"
proof -
  let ?c = "[(''tor_cmd'', Scalar (SStr ''/opt/tor'')), (''config'', Dict [(''SocksPort'', SInt 9050)])]"
  let ?m = "[(''tor_cmd'', Scalar (SStr ''/opt/tor'')), (''config'', Dict [(''SocksPort'', SStr ''9050'')])]"
  let ?m' = "[(''tor_cmd'', Scalar (SStr ''/usr/bin/tor'')), (''config'', Dict [(''SocksPort'', SStr ''9051'')])]"
  have a: "init_config (scripted []) 9051 (Some ''/usr/bin/tor'') (Some ?c)
           = Inr (Scalar (SStr ''/opt/tor''), 9050, ?m)"
    by (simp add: init_config_def init_port_def init_socks_port_def py_get_def dict_get_def Let_def)
  have b: "init_config (scripted []) 9051 (Some ''/usr/bin/tor'') None
           = Inr (Scalar (SStr ''/usr/bin/tor''), 9051, ?m')"
    by (simp add: init_config_def init_port_def init_socks_port_def py_get_def dict_get_def Let_def)
  have c: "socks_port_of ?c = SInt 9050" "socks_port_of [] = SNone"
    by (simp_all add: socks_port_of_def py_get_def dict_get_def)
  from init_config_merge [OF a, of ?c] init_config_merge [OF b, of "[]"] a b c
  show ?thesis by simp
qed

text \<open>The claim as stated fails: the supplied map contains the key \<^verbatim>\<open>tor_cmd\<close>, with the
  value \<^verbatim>\<open>None\<close>, and the explicit argument is what the merged configuration and the
  recorded path hold.\<close>

theorem none_valued_key_counterexample:
  "map_of [(''tor_cmd'', Scalar SNone)] ''tor_cmd'' = Some (Scalar SNone) \<and>
   init_config (scripted []) 9051 (Some ''/usr/bin/tor'') (Some [(''tor_cmd'', Scalar SNone)])
   = Inr (Scalar (SStr ''/usr/bin/tor''), 9051,
          [(''tor_cmd'', Scalar (SStr ''/usr/bin/tor'')), (''config'', Dict [(''SocksPort'', SStr ''9051'')])])"
  by (simp add: init_config_def init_port_def init_socks_port_def py_get_def dict_get_def Let_def)

text \<open>The states \<open>manager1\<close> and \<open>world1\<close> of the examples are those of a construction with
  default arguments whose first probe passes, before the caller's own
  \<^verbatim>\<open>requests.Session()\<close>.\<close>

lemma construction_example:
  "TorInstance_init (scripted (Body marker # rs)) 9051 None None True world0
     = Some (Inr manager1, world1\<lparr>next_addr := 1\<rparr>)"
  apply (simp add: TorInstance_init_def init_config_def init_port_def init_socks_port_def py_get_def
      dict_get_def Let_def)
  apply (subst start_tor.simps)
  apply (simp add: Let_def scripted_def world0_def emit_def gbs_none gbs_unfold new_session_def
      probe_response_def tor_proxies_def credentials_of_def base_started_def base_insert_def
      probed_def manager1_def world1_def)
  done

end
